theory Spec2Isabelle
  imports Main
begin

section \<open>Python string primitives used by the switch driver\<close>

text \<open>
  Strings are \<open>char list\<close>. The driver only uses literal patterns, so
  \<open>re.compile(r'Error').search(output)\<close> is a search for a contiguous occurrence of
  the literal anywhere in the text, and \<open>command.startswith('dis')\<close> is a prefix test.
\<close>

fun startswith :: "string \<Rightarrow> string \<Rightarrow> bool" where
  "startswith s [] = True"
| "startswith [] (p # ps) = False"
| "startswith (c # cs) (p # ps) = (c = p \<and> startswith cs ps)"

fun re_search :: "string \<Rightarrow> string \<Rightarrow> bool" where
  "re_search p [] = (p = [])"
| "re_search p (c # cs) = (startswith (c # cs) p \<or> re_search p cs)"

section \<open>Exceptions\<close>

text \<open>
  The argument \<open>commands\<close> of \<open>_check_output\<close> is a single command line in
  \<open>send_command\<close> and \<open>save_configuration\<close>, and a list of lines in
  \<open>send_config_set\<close>; the raised exception carries it unchanged.
\<close>

datatype cmdarg = Cmd string | CmdSet "string list"

datatype exn =
    ConfigSwitchError cmdarg string
  | SwitchConnectionError string exn
  | RetryError exn
  | SSHException string
  | EOFError
  | IndexError
  | OtherException string
  | LockTimeout
  | UnboundLocalError string
  | RuntimeError string
  | ValueError string
  | AttributeError string
  | ConfigInternalVlanError

section \<open>Output validation: \<open>HuaweiSwitch._check_output\<close>\<close>

definition ERROR_MSG_PATTERNS :: "string list" where
  "ERROR_MSG_PATTERNS = [''Error'', ''Wrong'', ''Incomplete'', ''Unrecognized'']"

text \<open>
  The \<open>for pattern in ERROR_MSG_PATTERNS\<close> loop: the first pattern found raises,
  \<open>None\<close> stands for the loop running to its end.
\<close>

fun scan_patterns :: "string list \<Rightarrow> string \<Rightarrow> cmdarg \<Rightarrow> exn option" where
  "scan_patterns [] output commands = None"
| "scan_patterns (pattern # ps) output commands =
     (if re_search pattern output then Some (ConfigSwitchError commands output)
      else scan_patterns ps output commands)"

text \<open>
  \<open>if not output: return\<close> gives Python's \<open>None\<close> (here \<open>Inr None\<close>); a text
  that passes the scan is returned itself.
\<close>

definition check_output :: "string \<Rightarrow> cmdarg \<Rightarrow> exn + string option" where
  "check_output output commands =
     (if output = [] then Inr None
      else case scan_patterns ERROR_MSG_PATTERNS output commands of
             Some e \<Rightarrow> Inl e
           | None \<Rightarrow> Inr (Some output))"

section \<open>Effects: the device, the lock pool and the clock\<close>

text \<open>
  Every call that leaves the process is recorded as an event, in program order. A
  computation returns its Python result (\<open>Inl\<close> an exception that propagates) and
  the events it caused. Logging calls do not influence control flow and are left out.
\<close>

datatype event =
    LockAcquire
  | LockRelease
  | Connect
  | Disconnect
  | Sleep nat
  | ConfigMode
  | SessionPreparation
  | SendCommand string
  | SendConfigSet "string list"
  | SaveConfig string

type_synonym 'a io = "(exn + 'a) \<times> event list"

definition return_io :: "'a \<Rightarrow> 'a io" where
  "return_io x = (Inr x, [])"

definition raise_io :: "exn \<Rightarrow> 'a io" where
  "raise_io e = (Inl e, [])"

definition lift_io :: "exn + 'a \<Rightarrow> 'a io" where
  "lift_io r = (r, [])"

definition call_io :: "event \<Rightarrow> exn + 'a \<Rightarrow> 'a io" where
  "call_io ev r = (r, [ev])"

definition emit :: "event list \<Rightarrow> 'a io \<Rightarrow> 'a io" where
  "emit evs m = (fst m, evs @ snd m)"

text \<open>Sequencing: an exception in the first computation skips the second.\<close>

definition bind_io :: "'a io \<Rightarrow> ('a \<Rightarrow> 'b io) \<Rightarrow> 'b io" where
  "bind_io m f =
     (case m of
        (Inl e, evs) \<Rightarrow> (Inl e, evs)
      | (Inr x, evs) \<Rightarrow> emit evs (f x))"

text \<open>
  What the outside world answers. Times are in milliseconds. \<open>connect_handler i\<close>
  is the outcome of the \<open>i\<close>-th call of \<open>netmiko.ConnectHandler\<close> (\<open>None\<close>: a
  session) and \<open>connect_time i\<close> how long that call took; \<open>device_save_config i\<close>
  and \<open>save_time i\<close> are the same for the \<open>i\<close>-th \<open>save_config\<close> call, and
  \<open>random_draw i\<close> is the \<open>i\<close>-th draw of the jitter. \<open>locker\<close> says whether a
  coordination backend is configured and \<open>pool_lock\<close> what acquiring a slot gives.
\<close>

record env =
  ip :: string
  locker :: bool
  pool_lock :: "exn option"
  connect_handler :: "nat \<Rightarrow> exn option"
  connect_time :: "nat \<Rightarrow> nat"
  config_mode :: "exn option"
  session_preparation :: "exn option"
  device_send_command :: "string \<Rightarrow> exn + string"
  device_send_config_set :: "string list \<Rightarrow> exn + string"
  device_save_config :: "nat \<Rightarrow> exn + string"
  save_time :: "nat \<Rightarrow> nat"
  random_draw :: "nat \<Rightarrow> nat"

definition unit_result :: "exn option \<Rightarrow> exn + unit" where
  "unit_result r = (case r of None \<Rightarrow> Inr () | Some e \<Rightarrow> Inl e)"

section \<open>Connecting: \<open>HuaweiSwitch._get_connection\<close>\<close>

text \<open>
  \<open>retry_exc_types = (paramiko.SSHException, EOFError, IndexError)\<close>.
\<close>

fun retry_exc_types :: "exn \<Rightarrow> bool" where
  "retry_exc_types (SSHException msg) = True"
| "retry_exc_types EOFError = True"
| "retry_exc_types IndexError = True"
| "retry_exc_types e = False"

definition sw_ssh_connect_timeout :: nat where
  "sw_ssh_connect_timeout = 60"

definition sw_ssh_connect_interval :: nat where
  "sw_ssh_connect_interval = 10"

text \<open>
  The \<open>tenacity.retry\<close> loop around \<open>_create_connection\<close>, at attempt \<open>i\<close> with
  \<open>t\<close> milliseconds gone since the first attempt started. An exception that is not
  of a retried type leaves the loop at once. After a retried exception the stop
  condition \<open>stop_after_delay\<close> compares the time gone when the attempt ended with the
  timeout; with \<open>reraise=True\<close> the last exception itself is raised, otherwise the
  loop sleeps \<open>wait_fixed\<close> and tries again.
\<close>

function create_connection :: "env \<Rightarrow> nat \<Rightarrow> nat \<Rightarrow> unit io" where
  "create_connection env i t =
     (case connect_handler env i of
        None \<Rightarrow> (Inr (), [Connect])
      | Some e \<Rightarrow>
          if \<not> retry_exc_types e then (Inl e, [Connect])
          else if 1000 * sw_ssh_connect_timeout \<le> t + connect_time env i
               then (Inl e, [Connect])
          else emit [Connect, Sleep (1000 * sw_ssh_connect_interval)]
                 (create_connection env (Suc i)
                    (t + connect_time env i + 1000 * sw_ssh_connect_interval)))"
  by pat_completeness auto
termination
  by (relation "measure (\<lambda>(env, i, t). 1000 * sw_ssh_connect_timeout - t)")
     (auto simp: sw_ssh_connect_timeout_def sw_ssh_connect_interval_def)

declare create_connection.simps [simp del]

text \<open>
  Entering the context manager: whatever \<open>_create_connection\<close> raises, a
  \<open>tenacity.RetryError\<close> or any other \<open>Exception\<close>, is wrapped in
  \<open>SwitchConnectionError(ip, error)\<close> by one of the two \<open>except\<close> clauses.
\<close>

definition get_connection :: "env \<Rightarrow> unit io" where
  "get_connection env =
     (case create_connection env 0 0 of
        (Inl e, evs) \<Rightarrow> (Inl (SwitchConnectionError (ip env) e), evs)
      | (Inr net_connect, evs) \<Rightarrow> (Inr net_connect, evs))"

text \<open>
  \<open>with self._get_connection() as net_connect: body\<close>. Leaving \<open>with net_connect\<close>
  disconnects, also when the body raised.
\<close>

definition with_connection :: "env \<Rightarrow> 'a io \<Rightarrow> 'a io" where
  "with_connection env body =
     (case get_connection env of
        (Inl e, evs) \<Rightarrow> (Inl e, evs)
      | (Inr net_connect, evs) \<Rightarrow> (fst body, evs @ snd body @ [Disconnect]))"

text \<open>
  Modelled from the spec: \<open>sw_lock.PoolLock\<close> (module \<open>baremetal.common.locking\<close>)
  is not among the sources. By the specification, acquiring obtains one free slot of
  the device's pool or fails (with \<open>LockTimeout\<close>) without running the body, the
  slot is released on every exit from the body, after the session is closed, and
  without a coordination backend the body runs unlocked.
\<close>

definition with_pool_lock :: "env \<Rightarrow> 'a io \<Rightarrow> 'a io" where
  "with_pool_lock env body =
     (if \<not> locker env then body
      else case pool_lock env of
             Some e \<Rightarrow> (Inl e, [])
           | None \<Rightarrow> (fst body, [LockAcquire] @ snd body @ [LockRelease]))"

section \<open>Sending: \<open>send_config_set\<close>, \<open>send_command\<close>, \<open>save_configuration\<close>\<close>

text \<open>
  Both senders end without a \<open>return\<close> statement: their value is \<open>None\<close>, the
  device's text is only validated. The \<open>except: ... raise\<close> clauses re-raise
  unchanged.
\<close>

definition send_config_set :: "env \<Rightarrow> string list \<Rightarrow> unit io" where
  "send_config_set env cmd_set =
     bind_io (call_io ConfigMode (unit_result (config_mode env))) (\<lambda>_.
     bind_io (call_io (SendConfigSet cmd_set) (device_send_config_set env cmd_set)) (\<lambda>output.
     bind_io (lift_io (check_output output (CmdSet cmd_set))) (\<lambda>_.
     return_io ())))"

definition send_command :: "env \<Rightarrow> string \<Rightarrow> unit io" where
  "send_command env command =
     bind_io (if startswith command ''dis''
              then call_io SessionPreparation (unit_result (session_preparation env))
              else call_io ConfigMode (unit_result (config_mode env))) (\<lambda>_.
     bind_io (call_io (SendCommand command) (device_send_command env command)) (\<lambda>output.
     bind_io (lift_io (check_output output (Cmd command))) (\<lambda>_.
     return_io ())))"

text \<open>
  One call of the inner \<open>_save\<close>: the \<open>i\<close>-th \<open>save_config\<close> of the session, its
  text validated; the text itself is returned.
\<close>

definition save_attempt :: "env \<Rightarrow> string \<Rightarrow> nat \<Rightarrow> exn + string" where
  "save_attempt env cmd i =
     (case device_save_config env i of
        Inl e \<Rightarrow> Inl e
      | Inr output \<Rightarrow>
          (case check_output output (Cmd cmd) of
             Inl e \<Rightarrow> Inl e
           | Inr _ \<Rightarrow> Inr output))"

text \<open>
  \<open>tenacity.wait_random(min=2, max=6)\<close>: two seconds plus the draw, below six.
\<close>

definition wait_random :: "env \<Rightarrow> nat \<Rightarrow> nat" where
  "wait_random env i = 2000 + random_draw env i mod 4000"

text \<open>
  The \<open>tenacity.retry\<close> loop around \<open>_save\<close>. No \<open>retry\<close> argument is given, so
  every exception is retried. When \<open>stop_after_delay(30)\<close> holds after a failed
  attempt, tenacity raises: with \<open>reraise=False\<close> the exception raised is
  \<open>RetryError\<close> holding the last attempt, in place of the attempt's own exception.
\<close>

function save_retry :: "env \<Rightarrow> string \<Rightarrow> nat \<Rightarrow> nat \<Rightarrow> string io" where
  "save_retry env cmd i t =
     (case save_attempt env cmd i of
        Inr output \<Rightarrow> (Inr output, [SaveConfig cmd])
      | Inl e \<Rightarrow>
          if 30000 \<le> t + save_time env i then (Inl (RetryError e), [SaveConfig cmd])
          else emit [SaveConfig cmd, Sleep (wait_random env i)]
                 (save_retry env cmd (Suc i) (t + save_time env i + wait_random env i)))"
  by pat_completeness auto
termination
  by (relation "measure (\<lambda>(env, cmd, i, t). 30000 - t)")
     (auto simp: wait_random_def)

declare save_retry.simps [simp del]

definition save_configuration :: "env \<Rightarrow> string io" where
  "save_configuration env = save_retry env ''save'' 0 0"

section \<open>The entry points \<open>my_send_config_set\<close>, \<open>my_send_command\<close>, \<open>save\<close>\<close>

text \<open>
  A Python value that is either \<open>None\<close> or a string is a \<open>string option\<close>.
\<close>

definition my_send_config_set :: "env \<Rightarrow> string list \<Rightarrow> string option io" where
  "my_send_config_set env cmd_set =
     (if cmd_set = [] then return_io None
      else bind_io (with_pool_lock env (with_connection env (send_config_set env cmd_set)))
             (\<lambda>_. return_io (Some ''successful'')))"

text \<open>
  In \<open>my_send_command\<close> the final \<open>raise\<close> stands after the \<open>except\<close> clause, not
  inside it: it runs once the handler has logged the exception, when no exception is
  active any more, which in Python 3 is a \<open>RuntimeError\<close>.
\<close>

definition my_send_command :: "env \<Rightarrow> string \<Rightarrow> string option io" where
  "my_send_command env command =
     (if command = [] then return_io None
      else case with_pool_lock env (with_connection env
                  (bind_io (send_command env command) (\<lambda>_.
                   bind_io (save_configuration env) (\<lambda>output.
                   return_io (Some output))))) of
             (Inr output, evs) \<Rightarrow> (Inr output, evs)
           | (Inl e, evs) \<Rightarrow> (Inl (RuntimeError ''No active exception to reraise''), evs))"

text \<open>
  In \<open>save\<close> the handler of \<open>tenacity.RetryError\<close> only logs; the \<open>return output\<close>
  after it reads a local variable that was never assigned.
\<close>

definition save :: "env \<Rightarrow> string io" where
  "save env =
     with_pool_lock env (with_connection env
       (case save_configuration env of
          (Inr output, evs) \<Rightarrow> (Inr output, evs)
        | (Inl (RetryError ex), evs) \<Rightarrow> (Inl (UnboundLocalError ''output''), evs)
        | (Inl e, evs) \<Rightarrow> (Inl e, evs)))"

section \<open>Command text: VLANs\<close>

text \<open>\<open>vlan.replace("-", " to ")\<close>: every hyphen is replaced.\<close>

fun replace_hyphen :: "string \<Rightarrow> string" where
  "replace_hyphen [] = []"
| "replace_hyphen (c # cs) =
     (if c = CHR ''-'' then '' to '' @ replace_hyphen cs else c # replace_hyphen cs)"

text \<open>
  The loop of \<open>gen_vlan_string\<close>, with the string built so far. For a one-character
  literal, \<open>"-" in vlan\<close> is membership of the character.
\<close>

fun gen_vlan_loop :: "string list \<Rightarrow> string \<Rightarrow> string" where
  "gen_vlan_loop [] vlan_string = vlan_string"
| "gen_vlan_loop (vlan # vlans) vlan_string =
     gen_vlan_loop vlans
       (vlan_string @ (if CHR ''-'' \<in> set vlan then replace_hyphen vlan else vlan) @ '' '')"

definition gen_vlan_string :: "string list \<Rightarrow> string" where
  "gen_vlan_string vlans = gen_vlan_loop vlans []"









section \<open>Command text: rate limits\<close>

text \<open>\<open>"%s" % n\<close> for an integer: its decimal numeral.\<close>

fun str_nat :: "nat \<Rightarrow> string" where
  "str_nat n =
     (if n < 10 then [''0123456789'' ! n]
      else str_nat (n div 10) @ [''0123456789'' ! (n mod 10)])"

declare str_nat.simps [simp del]

definition str_int :: "int \<Rightarrow> string" where
  "str_int i = (if i < 0 then CHR ''-'' # str_nat (nat (- i)) else str_nat (nat i))"

text \<open>
  The two assignments \<open>cir = int(bandwidth) * 1024\<close> and \<open>cbs = min(524288, cir * 2)\<close>
  and the line formatted from them; \<open>set_limit\<close> and \<open>init_all_config\<close> contain the
  same three lines.
\<close>

definition cir_of :: "int \<Rightarrow> int" where
  "cir_of bandwidth = bandwidth * 1024"

definition cbs_of :: "int \<Rightarrow> int" where
  "cbs_of bandwidth = min 524288 (cir_of bandwidth * 2)"

definition qos_lr_cmd :: "int \<Rightarrow> string" where
  "qos_lr_cmd bandwidth =
     ''qos lr cir '' @ str_int (cir_of bandwidth) @ '' kbps cbs ''
       @ str_int (cbs_of bandwidth) @ '' kbytes outbound''"

record limit_info =
  template_name :: string
  inbound_port :: string
  outbound_ports :: "string list"
  bandwidth :: int

text \<open>The inner loop of \<open>set_limit\<close> over \<open>info.outbound_ports\<close>.\<close>

fun outbound_loop :: "int \<Rightarrow> string list \<Rightarrow> string list \<Rightarrow> string list" where
  "outbound_loop bw [] outbound_cmd = outbound_cmd"
| "outbound_loop bw (p # ps) outbound_cmd =
     outbound_loop bw ps
       (outbound_cmd @ [''interface '' @ p, qos_lr_cmd bw, ''commit'', ''q''])"

text \<open>The outer loop of \<open>set_limit\<close>, with both lists built so far.\<close>

fun set_limit_loop ::
  "limit_info list \<Rightarrow> string list \<Rightarrow> string list \<Rightarrow> string list \<times> string list" where
  "set_limit_loop [] inbound_cmd outbound_cmd = (inbound_cmd, outbound_cmd)"
| "set_limit_loop (info # infos) inbound_cmd outbound_cmd =
     set_limit_loop infos
       (inbound_cmd @ [''interface '' @ inbound_port info,
                       ''qos car inbound '' @ template_name info, ''commit'', ''q''])
       (outbound_loop (bandwidth info) (outbound_ports info) outbound_cmd)"

definition set_limit_commands :: "limit_info list \<Rightarrow> string list" where
  "set_limit_commands limit_infos =
     (case set_limit_loop limit_infos [] [] of
        (inbound_cmd, outbound_cmd) \<Rightarrow> inbound_cmd @ outbound_cmd @ [''q''])"

definition set_limit :: "env \<Rightarrow> limit_info list \<Rightarrow> string option io" where
  "set_limit env limit_infos = my_send_config_set env (set_limit_commands limit_infos)"

section \<open>Command text: \<open>init_all_config\<close>\<close>

record switch =
  ports :: "string list"
  vlan_ids :: "string list"

text \<open>The loop of \<open>_clean_all_config\<close>; the optional template is \<open>None\<close> or a name.\<close>

fun clean_loop :: "string list \<Rightarrow> string list \<Rightarrow> string list" where
  "clean_loop [] all_ports_cmd = all_ports_cmd"
| "clean_loop (p # ps) all_ports_cmd =
     clean_loop ps
       (all_ports_cmd @
        [''interface '' @ p, ''undo port link-type'', ''undo port default vlan'']
        @ [''undo qos car inbound'', ''undo qos lr outbound'']
        @ [''undo shutdown'', ''q''])"

definition clean_all_config_cmds :: "switch \<Rightarrow> string option \<Rightarrow> string list" where
  "clean_all_config_cmds sw tname =
     clean_loop (ports sw) [] @
     (case tname of
        None \<Rightarrow> []
      | Some t \<Rightarrow> if t = [] then [] else [''undo qos car '' @ t])"

text \<open>\<open>s.split(sep)\<close> for a one-character separator: never an empty list.\<close>

fun split_acc :: "char \<Rightarrow> string \<Rightarrow> string \<Rightarrow> string list" where
  "split_acc sep cur [] = [cur]"
| "split_acc sep cur (c # cs) =
     (if c = sep then cur # split_acc sep [] cs else split_acc sep (cur @ [c]) cs)"

definition py_split :: "char \<Rightarrow> string \<Rightarrow> string list" where
  "py_split sep s = split_acc sep [] s"

fun dhclient_loop :: "string \<Rightarrow> string list \<Rightarrow> string list \<Rightarrow> string list" where
  "dhclient_loop vlan [] set_vlan_cmd = set_vlan_cmd"
| "dhclient_loop vlan (p # ps) set_vlan_cmd =
     dhclient_loop vlan ps
       (set_vlan_cmd @ [''interface '' @ p, ''port link-type access'',
                        ''port default vlan '' @ vlan, ''q''])"

definition init_dhclient_config ::
  "env \<Rightarrow> switch \<Rightarrow> string list \<Rightarrow> string option io" where
  "init_dhclient_config env sw clean_cmd_set =
     (if length (vlan_ids sw) \<noteq> 1 then raise_io ConfigInternalVlanError
      else my_send_config_set env
             (clean_cmd_set @ dhclient_loop (vlan_ids sw ! 0) (ports sw) [] @ [''commit'', ''q'']))"

text \<open>The per-port loop of \<open>init_all_config\<close>.\<close>

fun init_ports_loop ::
  "string \<Rightarrow> int \<Rightarrow> string \<Rightarrow> string list \<Rightarrow> string list \<Rightarrow> string list" where
  "init_ports_loop tname bw vlan_string [] all_ports_cmd = all_ports_cmd"
| "init_ports_loop tname bw vlan_string (p # ps) all_ports_cmd =
     init_ports_loop tname bw vlan_string ps
       (all_ports_cmd @
        [''interface '' @ p, ''port link-type trunk'',
         ''port trunk allow-pass vlan '' @ vlan_string]
        @ [''qos car inbound '' @ tname]
        @ [qos_lr_cmd bw]
        @ [''undo shutdown'', ''q''])"

text \<open>
  The list \<open>init_cmd_set\<close> of \<open>init_all_config\<close> for the bandwidth parsed from the
  template name. The VLAN loop written out in \<open>init_all_config\<close> is the one of
  \<open>gen_vlan_string\<close>.
\<close>

definition init_cmd_set :: "switch \<Rightarrow> string \<Rightarrow> int \<Rightarrow> string list" where
  "init_cmd_set sw tname bw =
     [''qos car '' @ tname @ '' cir '' @ str_int (bw * 1024) @ '' kbps'', ''commit'']
     @ init_ports_loop tname bw (gen_vlan_loop (vlan_ids sw) []) (ports sw) []
     @ [''commit'', ''q'']"

text \<open>
  \<open>init_all_config\<close>. The builtin \<open>int\<close> applied to a string is the parameter
  \<open>py_int\<close>: it gives the number or raises \<open>ValueError\<close>.
\<close>

definition init_all_config ::
  "(string \<Rightarrow> exn + int) \<Rightarrow> env \<Rightarrow> switch \<Rightarrow> string \<Rightarrow> bool \<Rightarrow> string option io" where
  "init_all_config py_int env sw tname is_dhclient =
     (let clean_cmd_set = clean_all_config_cmds sw None in
      if is_dhclient then init_dhclient_config env sw clean_cmd_set
      else case py_int (last (py_split (CHR ''-'') tname)) of
             Inl e \<Rightarrow> raise_io e
           | Inr bw \<Rightarrow>
               if vlan_ids sw \<noteq> []
               then my_send_config_set env (clean_cmd_set @ init_cmd_set sw tname bw)
               else return_io (Some ''vlan information is null''))"

section \<open>Parsing the MAC table: \<open>get_relations\<close>\<close>

text \<open>
  \<open>re.compile(r'\S+').findall(line)\<close>: the maximal runs of characters that are not
  white space, from left to right. The pattern is a \<open>str\<close> pattern, so \<open>\s\<close> is
  Unicode white space. A character here is a code point below 256, and the white
  space among these is: tab, line feed, vertical tab, form feed, carriage return
  (\<open>0x09\<close> to \<open>0x0D\<close>), the four separators \<open>0x1C\<close> to \<open>0x1F\<close>, the space,
  next line \<open>0x85\<close> and the no-break space \<open>0xA0\<close>.
\<close>

definition isspace :: "char \<Rightarrow> bool" where
  "isspace c \<longleftrightarrow>
     c \<in> set [CHR 0x09, CHR 0x0A, CHR 0x0B, CHR 0x0C, CHR 0x0D,
              CHR 0x1C, CHR 0x1D, CHR 0x1E, CHR 0x1F, CHR 0x20, CHR 0x85, CHR 0xA0]"

fun tokens :: "string \<Rightarrow> string \<Rightarrow> string list" where
  "tokens cur [] = (if cur = [] then [] else [cur])"
| "tokens cur (c # cs) =
     (if isspace c then (if cur = [] then tokens [] cs else cur # tokens [] cs)
      else tokens (cur @ [c]) cs)"

definition findall_nonspace :: "string \<Rightarrow> string list" where
  "findall_nonspace line = tokens [] line"

text \<open>\<open>sep.join(xs)\<close>.\<close>

fun py_join :: "string \<Rightarrow> string list \<Rightarrow> string" where
  "py_join sep [] = []"
| "py_join sep [x] = x"
| "py_join sep (x # y # ys) = x @ sep @ py_join sep (y # ys)"

text \<open>
  \<open>":".join(i[0:2] + ":" + i[2:4] for i in data[0].split("-"))\<close>. Slices never
  raise: they are cut at the end of the string.
\<close>

definition mac_of_token :: "string \<Rightarrow> string" where
  "mac_of_token tok =
     py_join '':'' (map (\<lambda>i. take 2 i @ '':'' @ take 2 (drop 2 i)) (py_split (CHR ''-'') tok))"

record relation =
  mac :: string
  port :: string

text \<open>
  The body of the loop over the lines, with the list \<open>relations\<close> built so far. Both
  \<open>data[0]\<close> and \<open>data[2]\<close> raise \<open>IndexError\<close> on a list that is too short, and
  nothing in \<open>get_relations\<close> catches it.
\<close>

fun parse_lines :: "string list \<Rightarrow> relation list \<Rightarrow> exn + relation list" where
  "parse_lines [] relations = Inr relations"
| "parse_lines (line # lines) relations =
     (let data = findall_nonspace line in
      if length data \<le> 0 then Inl IndexError
      else if length data \<le> 2 then Inl IndexError
      else parse_lines lines
             (relations @ [\<lparr>mac = mac_of_token (data ! 0), port = data ! 2\<rparr>]))"

text \<open>\<open>datas.split("\n")[7:-2]\<close>.\<close>

definition table_lines :: "string \<Rightarrow> string list" where
  "table_lines datas =
     (let ls = py_split (CHR 0x0A) datas in drop 7 (take (length ls - 2) ls))"

definition parse_output :: "string \<Rightarrow> relation list \<Rightarrow> exn + relation list" where
  "parse_output datas relations = parse_lines (table_lines datas) relations"

text \<open>
  The value of \<open>my_send_command\<close> is \<open>None\<close> or a string; \<open>None.split\<close> is an
  \<open>AttributeError\<close>.
\<close>

definition parse_datas :: "string option \<Rightarrow> relation list \<Rightarrow> exn + relation list" where
  "parse_datas datas relations =
     (case datas of
        None \<Rightarrow> Inl (AttributeError ''split'')
      | Some d \<Rightarrow> parse_output d relations)"

fun special_mac_loop :: "env \<Rightarrow> string list \<Rightarrow> relation list \<Rightarrow> relation list io" where
  "special_mac_loop env [] relations = return_io relations"
| "special_mac_loop env (item # items) relations =
     bind_io (my_send_command env (''display mac-address '' @ item)) (\<lambda>datas.
     bind_io (lift_io (parse_datas datas relations)) (\<lambda>relations'.
     special_mac_loop env items relations'))"

text \<open>
  \<open>get_relations\<close>: \<open>special_vlan\<close> is \<open>None\<close> or an integer, and \<open>if special_vlan\<close>
  holds for an integer other than zero.
\<close>

definition get_relations :: "env \<Rightarrow> int option \<Rightarrow> string list \<Rightarrow> relation list io" where
  "get_relations env special_vlan special_mac =
     bind_io (special_mac_loop env special_mac []) (\<lambda>relations.
       case special_vlan of
         None \<Rightarrow> return_io relations
       | Some v \<Rightarrow>
           if v = 0 then return_io relations
           else bind_io (my_send_command env (''display mac-address vlan '' @ str_int v)) (\<lambda>datas.
                lift_io (parse_datas datas relations)))"

section \<open>Example environments\<close>

text \<open>A device that accepts everything, behind a free lock slot.\<close>

definition env_ok :: env where
  "env_ok = \<lparr>ip = ''10.0.0.1'', locker = True, pool_lock = None,
     connect_handler = (\<lambda>i. None), connect_time = (\<lambda>i. 500),
     config_mode = None, session_preparation = None,
     device_send_command = (\<lambda>c. Inr ''ok''),
     device_send_config_set = (\<lambda>cs. Inr ''ok''),
     device_save_config = (\<lambda>i. Inr ''saved''),
     save_time = (\<lambda>i. 500), random_draw = (\<lambda>i. 0)\<rparr>"


text \<open>
  A device that answers every \<open>save\<close> with an error text; each attempt takes four
  seconds and the jitter draws its minimum.
\<close>

definition env_save_rejected :: env where
  "env_save_rejected = env_ok\<lparr>device_save_config := (\<lambda>i. Inr ''Error: save failed''),
     save_time := (\<lambda>i. 4000)\<rparr>"

text \<open>A device that answers a query with a table and a \<open>save\<close> with a notice.\<close>

definition env_query :: env where
  "env_query = env_ok\<lparr>device_send_command := (\<lambda>c. Inr ''MAC table''),
     device_save_config := (\<lambda>i. Inr ''Info: configuration saved'')\<rparr>"

text \<open>
  A response of ten lines: seven header lines, one data line whose first field has
  no hyphen, two trailing lines.
\<close>

definition table_no_hyphen :: string where
  "table_no_hyphen =
     py_join [CHR 0x0A]
       [''h1'', ''h2'', ''h3'', ''h4'', ''h5'', ''h6'', ''h7'', ''abc x y'', ''f1'', ''f2'']"

text \<open>The same with a data line of two fields.\<close>

definition table_short_line :: string where
  "table_short_line =
     py_join [CHR 0x0A]
       [''h1'', ''h2'', ''h3'', ''h4'', ''h5'', ''h6'', ''h7'', ''0011-2233-4455 10'',
        ''f1'', ''f2'']"


section \<open>Facts about the string primitives\<close>

lemma startswith_iff: "startswith s p \<longleftrightarrow> (\<exists>r. s = p @ r)"
  by (induction s p rule: startswith.induct) auto

lemma re_search_iff: "re_search p s \<longleftrightarrow> (\<exists>a b. s = a @ p @ b)"
proof (induction s)
  case Nil
  then show ?case by simp
next
  case (Cons c cs)
  show ?case
  proof
    assume "re_search p (c # cs)"
    then consider "startswith (c # cs) p" | "re_search p cs" by auto
    then show "\<exists>a b. c # cs = a @ p @ b"
    proof cases
      case 1
      then obtain r where "c # cs = p @ r" by (auto simp: startswith_iff)
      then have "c # cs = [] @ p @ r" by simp
      then show ?thesis by blast
    next
      case 2
      with Cons obtain a b where "cs = a @ p @ b" by blast
      then have "c # cs = (c # a) @ p @ b" by simp
      then show ?thesis by blast
    qed
  next
    assume "\<exists>a b. c # cs = a @ p @ b"
    then obtain a b where ab: "c # cs = a @ p @ b" by blast
    show "re_search p (c # cs)"
    proof (cases a)
      case Nil
      with ab have "startswith (c # cs) p" by (auto simp: startswith_iff)
      then show ?thesis by simp
    next
      case (Cons x a')
      with ab have "cs = a' @ p @ b" by simp
      with Cons.IH have "re_search p cs" by blast
      then show ?thesis by simp
    qed
  qed
qed

lemma scan_patterns_None:
  "scan_patterns ps output commands = None \<longleftrightarrow> (\<forall>p \<in> set ps. \<not> re_search p output)"
  by (induction ps) auto

lemma scan_patterns_Some:
  "scan_patterns ps output commands = Some e \<Longrightarrow> e = ConfigSwitchError commands output"
  by (induction ps) (auto split: if_splits)

section \<open>Claims\<close>

text \<open>
  C1. For every response text, \<open>_check_output\<close> raises \<open>ConfigSwitchError\<close> exactly
  when the text is non-empty and one of the four case-sensitive markers \<open>Error\<close>,
  \<open>Wrong\<close>, \<open>Incomplete\<close>, \<open>Unrecognized\<close> occurs in it as a contiguous piece;
  the exception carries the command and the raw text. An empty text returns \<open>None\<close>
  and a non-empty text with no marker is returned unchanged: neither raises.
\<close>

theorem check_output_raises_iff_marker:
  "((\<exists>e. check_output output commands = Inl e) \<longleftrightarrow>
      (output \<noteq> [] \<and>
       (\<exists>m \<in> set [''Error'', ''Wrong'', ''Incomplete'', ''Unrecognized''].
          \<exists>a b. output = a @ m @ b)))
   \<and> (\<forall>e. check_output output commands = Inl e \<longrightarrow> e = ConfigSwitchError commands output)
   \<and> (output = [] \<longrightarrow> check_output output commands = Inr None)
   \<and> (output \<noteq> [] \<and>
       (\<forall>m \<in> set [''Error'', ''Wrong'', ''Incomplete'', ''Unrecognized''].
          \<not> (\<exists>a b. output = a @ m @ b))
       \<longrightarrow> check_output output commands = Inr (Some output))"
proof -
  let ?ms = "[''Error'', ''Wrong'', ''Incomplete'', ''Unrecognized'']"
  have pats: "ERROR_MSG_PATTERNS = ?ms" by (simp add: ERROR_MSG_PATTERNS_def)
  have none: "scan_patterns ERROR_MSG_PATTERNS output commands = None \<longleftrightarrow>
      (\<forall>m \<in> set ?ms. \<not> (\<exists>a b. output = a @ m @ b))"
    unfolding scan_patterns_None pats by (simp only: re_search_iff)
  show ?thesis
  proof (cases "output = []")
    case True
    then show ?thesis by (simp add: check_output_def)
  next
    case ne: False
    show ?thesis
    proof (cases "scan_patterns ERROR_MSG_PATTERNS output commands")
      case None
      with ne none show ?thesis by (simp add: check_output_def)
    next
      case (Some e)
      then have e: "e = ConfigSwitchError commands output" by (rule scan_patterns_Some)
      from Some none have "\<not> (\<forall>m \<in> set ?ms. \<not> (\<exists>a b. output = a @ m @ b))" by simp
      with ne Some e show ?thesis by (simp add: check_output_def)
    qed
  qed
qed

theorem check_output_raises_iff_marker_witness:
  "check_output ''Error: Unrecognized command found'' (Cmd ''vlan 5000'')
     = Inl (ConfigSwitchError (Cmd ''vlan 5000'') ''Error: Unrecognized command found'')
   \<and> check_output ''error: wrong'' (Cmd ''commit'') = Inr (Some ''error: wrong'')
   \<and> check_output [] (Cmd ''commit'') = Inr None"
proof -
  have 1: "check_output ''Error: Unrecognized command found'' (Cmd ''vlan 5000'')
     = Inl (ConfigSwitchError (Cmd ''vlan 5000'') ''Error: Unrecognized command found'')"
    by (simp add: check_output_def ERROR_MSG_PATTERNS_def)
  have 2: "check_output ''error: wrong'' (Cmd ''commit'') = Inr (Some ''error: wrong'')"
    by (simp add: check_output_def ERROR_MSG_PATTERNS_def)
  have 3: "check_output [] (Cmd ''commit'') = Inr None"
    using check_output_raises_iff_marker [of "[]" "Cmd ''commit''"] by simp
  from 1 2 3 show ?thesis by simp
qed

section \<open>Facts about the VLAN text\<close>

lemma replace_hyphen_append: "replace_hyphen (a @ b) = replace_hyphen a @ replace_hyphen b"
  by (induction a) auto

lemma replace_hyphen_id: "CHR ''-'' \<notin> set v \<Longrightarrow> replace_hyphen v = v"
  by (induction v) auto

lemma gen_vlan_loop_eq:
  "gen_vlan_loop vlans acc = acc @ concat (map (\<lambda>vlan. replace_hyphen vlan @ '' '') vlans)"
  by (induction vlans arbitrary: acc) (auto simp: replace_hyphen_id)

lemma py_join_space:
  "vs \<noteq> [] \<Longrightarrow> concat (map (\<lambda>v. f v @ '' '') vs) = py_join '' '' (map f vs) @ '' ''"
  by (induction vs rule: induct_list012) auto

text \<open>
  C6. For every list of VLAN strings, \<open>gen_vlan_string\<close> is the concatenation, in
  input order, of one segment per entry, each segment followed by one space; so the
  segments are separated by single spaces (the text is their space-separated join,
  closed by one more space). The segment of an entry is the entry with every hyphen
  replaced by \<open>" to "\<close>: a range \<open>A-B\<close> becomes \<open>A to B\<close>, and an entry without a
  hyphen is its own segment.
\<close>

theorem gen_vlan_string_segments:
  "gen_vlan_string vlans = concat (map (\<lambda>vlan. replace_hyphen vlan @ '' '') vlans)
   \<and> (vlans \<noteq> [] \<longrightarrow>
        gen_vlan_string vlans = py_join '' '' (map replace_hyphen vlans) @ '' '')
   \<and> (\<forall>a b. CHR ''-'' \<notin> set a \<and> CHR ''-'' \<notin> set b \<longrightarrow>
        replace_hyphen (a @ ''-'' @ b) = a @ '' to '' @ b)
   \<and> (\<forall>v. CHR ''-'' \<notin> set v \<longrightarrow> replace_hyphen v = v)"
  by (simp add: gen_vlan_string_def gen_vlan_loop_eq py_join_space
        replace_hyphen_append replace_hyphen_id)

theorem gen_vlan_string_segments_witness:
  "gen_vlan_string [''10-20'', ''30'', ''40-45''] = ''10 to 20 30 40 to 45 ''
   \<and> replace_hyphen ''10-20'' = ''10 to 20''"
  using gen_vlan_string_segments [of "[''10-20'', ''30'', ''40-45'']"]
  by simp

section \<open>Facts about the command lists and the events\<close>






lemma save_retry_events:
  "set (snd (save_retry env cmd i t)) \<subseteq> insert (SaveConfig cmd) (range Sleep)"
proof (induction env cmd i t rule: save_retry.induct)
  case (1 env cmd i t)
  show ?case
    apply (subst save_retry.simps)
    using 1 by (auto simp: emit_def split: sum.splits)
qed





section \<open>Facts about the rate-limit commands\<close>

lemma str_nat_small: "n < 10 \<Longrightarrow> str_nat n = [''0123456789'' ! n]"
  by (subst str_nat.simps) simp

lemma str_nat_large:
  "10 \<le> n \<Longrightarrow> str_nat n = str_nat (n div 10) @ [''0123456789'' ! (n mod 10)]"
  by (subst str_nat.simps) simp

lemma outbound_loop_eq:
  "outbound_loop bw ps acc =
     acc @ concat (map (\<lambda>p. [''interface '' @ p, qos_lr_cmd bw, ''commit'', ''q'']) ps)"
  by (induction ps arbitrary: acc) auto

lemma set_limit_loop_eq:
  "set_limit_loop infos inb outb =
     (inb @ concat (map (\<lambda>info. [''interface '' @ inbound_port info,
                                   ''qos car inbound '' @ template_name info,
                                   ''commit'', ''q'']) infos),
      outb @ concat (map (\<lambda>info. concat (map (\<lambda>p. [''interface '' @ p,
                                   qos_lr_cmd (bandwidth info), ''commit'', ''q''])
                                   (outbound_ports info))) infos))"
  by (induction infos arbitrary: inb outb) (auto simp: outbound_loop_eq)

lemma init_ports_loop_eq:
  "init_ports_loop tname bw vs ps acc =
     acc @ concat (map (\<lambda>p. [''interface '' @ p, ''port link-type trunk'',
                              ''port trunk allow-pass vlan '' @ vs,
                              ''qos car inbound '' @ tname, qos_lr_cmd bw,
                              ''undo shutdown'', ''q'']) ps)"
  by (induction ps arbitrary: acc) auto

text \<open>
  C10. The outbound rate-limit line of \<open>set_limit\<close> (one per outbound port of each
  entry) and of \<open>init_all_config\<close> (one per port) is
  \<open>qos lr cir <cir> kbps cbs <cbs> kbytes outbound\<close> with \<open>cir = bandwidth * 1024\<close> and
  \<open>cbs = min(524288, 2 * cir)\<close>, both printed in decimal; these are the only
  \<open>qos lr\<close> lines of the two batches, and \<open>cbs\<close> is at most 524288 for every integer
  bandwidth.
\<close>

theorem outbound_limit_cbs_bound:
  "set_limit_commands limit_infos =
     concat (map (\<lambda>info. [''interface '' @ inbound_port info,
                           ''qos car inbound '' @ template_name info,
                           ''commit'', ''q'']) limit_infos)
     @ concat (map (\<lambda>info. concat (map (\<lambda>p. [''interface '' @ p,
                           qos_lr_cmd (bandwidth info), ''commit'', ''q''])
                           (outbound_ports info))) limit_infos)
     @ [''q'']
   \<and> init_cmd_set sw tname bw =
     [''qos car '' @ tname @ '' cir '' @ str_int (bw * 1024) @ '' kbps'', ''commit'']
     @ concat (map (\<lambda>p. [''interface '' @ p, ''port link-type trunk'',
                          ''port trunk allow-pass vlan '' @ gen_vlan_string (vlan_ids sw),
                          ''qos car inbound '' @ tname, qos_lr_cmd bw,
                          ''undo shutdown'', ''q'']) (ports sw))
     @ [''commit'', ''q'']
   \<and> (py_int (last (py_split (CHR ''-'') tname)) = Inr bw \<and> vlan_ids sw \<noteq> [] \<longrightarrow>
        init_all_config py_int env sw tname False =
          my_send_config_set env (clean_all_config_cmds sw None @ init_cmd_set sw tname bw))
   \<and> qos_lr_cmd b =
        ''qos lr cir '' @ str_int (b * 1024) @ '' kbps cbs ''
          @ str_int (min 524288 (2 * (b * 1024))) @ '' kbytes outbound''
   \<and> cir_of b = b * 1024
   \<and> cbs_of b = min 524288 (2 * cir_of b)
   \<and> cbs_of b \<le> 524288"
proof -
  have 1: "set_limit_commands limit_infos =
     concat (map (\<lambda>info. [''interface '' @ inbound_port info,
                           ''qos car inbound '' @ template_name info,
                           ''commit'', ''q'']) limit_infos)
     @ concat (map (\<lambda>info. concat (map (\<lambda>p. [''interface '' @ p,
                           qos_lr_cmd (bandwidth info), ''commit'', ''q''])
                           (outbound_ports info))) limit_infos)
     @ [''q'']"
    by (simp add: set_limit_commands_def set_limit_loop_eq)
  have 2: "init_cmd_set sw tname bw =
     [''qos car '' @ tname @ '' cir '' @ str_int (bw * 1024) @ '' kbps'', ''commit'']
     @ concat (map (\<lambda>p. [''interface '' @ p, ''port link-type trunk'',
                          ''port trunk allow-pass vlan '' @ gen_vlan_string (vlan_ids sw),
                          ''qos car inbound '' @ tname, qos_lr_cmd bw,
                          ''undo shutdown'', ''q'']) (ports sw))
     @ [''commit'', ''q'']"
    by (simp add: init_cmd_set_def init_ports_loop_eq gen_vlan_string_def)
  have 3: "py_int (last (py_split (CHR ''-'') tname)) = Inr bw \<and> vlan_ids sw \<noteq> [] \<longrightarrow>
        init_all_config py_int env sw tname False =
          my_send_config_set env (clean_all_config_cmds sw None @ init_cmd_set sw tname bw)"
    by (simp add: init_all_config_def)
  have 4: "qos_lr_cmd b =
        ''qos lr cir '' @ str_int (b * 1024) @ '' kbps cbs ''
          @ str_int (min 524288 (2 * (b * 1024))) @ '' kbytes outbound''"
    by (simp add: qos_lr_cmd_def cir_of_def cbs_of_def mult.commute)
  have 5: "cir_of b = b * 1024" by (simp add: cir_of_def)
  have 6: "cbs_of b = min 524288 (2 * cir_of b)" by (simp add: cbs_of_def mult.commute)
  have 7: "cbs_of b \<le> 524288" by (simp add: cbs_of_def)
  from 1 2 3 4 5 6 7 show ?thesis by blast
qed

theorem outbound_limit_cbs_bound_witness:
  "set_limit_commands
     [\<lparr>template_name = ''tpl-300'', inbound_port = ''10GE1/0/1'',
       outbound_ports = [''10GE1/0/2''], bandwidth = 300\<rparr>]
   = [''interface 10GE1/0/1'', ''qos car inbound tpl-300'', ''commit'', ''q'',
      ''interface 10GE1/0/2'', ''qos lr cir 307200 kbps cbs 524288 kbytes outbound'',
      ''commit'', ''q'', ''q'']
   \<and> qos_lr_cmd 100 = ''qos lr cir 102400 kbps cbs 204800 kbytes outbound''
   \<and> init_all_config (\<lambda>s. Inr 300) env_ok \<lparr>ports = [''10GE1/0/3''], vlan_ids = [''10'']\<rparr>
        ''tpl-300'' False
     = my_send_config_set env_ok
         (clean_all_config_cmds \<lparr>ports = [''10GE1/0/3''], vlan_ids = [''10'']\<rparr> None
          @ init_cmd_set \<lparr>ports = [''10GE1/0/3''], vlan_ids = [''10'']\<rparr> ''tpl-300'' 300)"
proof -
  let ?i = "\<lparr>template_name = ''tpl-300'', inbound_port = ''10GE1/0/1'',
       outbound_ports = [''10GE1/0/2''], bandwidth = 300\<rparr>"
  let ?sw = "\<lparr>ports = [''10GE1/0/3''], vlan_ids = [''10'']\<rparr>"
  note t = outbound_limit_cbs_bound [of "[?i]" ?sw "''tpl-300''" 300 "\<lambda>s. Inr 300" env_ok 300]
  note u = outbound_limit_cbs_bound [of "[?i]" ?sw "''tpl-300''" 300 "\<lambda>s. Inr 300" env_ok 100]
  have 1: "set_limit_commands [?i]
   = [''interface 10GE1/0/1'', ''qos car inbound tpl-300'', ''commit'', ''q'',
      ''interface 10GE1/0/2'', ''qos lr cir 307200 kbps cbs 524288 kbytes outbound'',
      ''commit'', ''q'', ''q'']"
    using t by (simp add: str_int_def str_nat_small str_nat_large)
  have 2: "qos_lr_cmd 100 = ''qos lr cir 102400 kbps cbs 204800 kbytes outbound''"
    using u by (simp add: str_int_def str_nat_small str_nat_large)
  have 3: "init_all_config (\<lambda>s. Inr 300) env_ok ?sw ''tpl-300'' False
     = my_send_config_set env_ok
         (clean_all_config_cmds ?sw None @ init_cmd_set ?sw ''tpl-300'' 300)"
    using t by simp
  from 1 2 3 show ?thesis by blast
qed

text \<open>
  C8. For an empty command batch \<open>my_send_config_set\<close> returns \<open>None\<close>, and for an
  empty command string \<open>my_send_command\<close> returns \<open>None\<close>; in both cases, whatever
  the lock pool, the transport and the device would answer, no event happens: no lock
  slot is acquired, no connection is attempted and nothing is sent.
\<close>

theorem empty_send_does_nothing:
  "my_send_config_set env [] = (Inr None, [])
   \<and> my_send_command env [] = (Inr None, [])"
  by (simp add: my_send_config_set_def my_send_command_def return_io_def)

section \<open>Facts about connecting\<close>





section \<open>The save step\<close>

text \<open>
  C2. Evaluation at a device that rejects every \<open>save\<close> until the thirty seconds of
  the retry policy are over: \<open>save_configuration\<close> does not return a value, it raises
  \<open>tenacity.RetryError\<close> around the last \<open>ConfigSwitchError\<close>; \<open>save\<close> catches
  that, and then raises \<open>UnboundLocalError\<close> at \<open>return output\<close>; \<open>my_send_command\<close>
  raises as well. The session is closed and the lock slot released on the way out.
\<close>

theorem save_exhausted_raises:
  "save_configuration env_save_rejected =
     (Inl (RetryError (ConfigSwitchError (Cmd ''save'') ''Error: save failed'')),
      [SaveConfig ''save'', Sleep 2000, SaveConfig ''save'', Sleep 2000,
       SaveConfig ''save'', Sleep 2000, SaveConfig ''save'', Sleep 2000,
       SaveConfig ''save'', Sleep 2000, SaveConfig ''save''])
   \<and> save env_save_rejected =
     (Inl (UnboundLocalError ''output''),
      [LockAcquire, Connect,
       SaveConfig ''save'', Sleep 2000, SaveConfig ''save'', Sleep 2000,
       SaveConfig ''save'', Sleep 2000, SaveConfig ''save'', Sleep 2000,
       SaveConfig ''save'', Sleep 2000, SaveConfig ''save'',
       Disconnect, LockRelease])
   \<and> fst (my_send_command env_save_rejected ''display mac-address'')
       = Inl (RuntimeError ''No active exception to reraise'')"
proof -
  have sel: "locker env_save_rejected" "pool_lock env_save_rejected = None"
    "connect_handler env_save_rejected = (\<lambda>i. None)"
    "session_preparation env_save_rejected = None"
    "device_send_command env_save_rejected = (\<lambda>c. Inr ''ok'')"
    "device_save_config env_save_rejected = (\<lambda>i. Inr ''Error: save failed'')"
    "save_time env_save_rejected = (\<lambda>i. 4000)"
    "random_draw env_save_rejected = (\<lambda>i. 0)"
    by (simp_all add: env_save_rejected_def env_ok_def)
  have att: "save_attempt env_save_rejected ''save'' i =
      Inl (ConfigSwitchError (Cmd ''save'') ''Error: save failed'')" for i
    by (simp add: save_attempt_def sel check_output_def ERROR_MSG_PATTERNS_def)
  have w: "wait_random env_save_rejected i = 2000" for i
    by (simp add: wait_random_def sel)
  have s5: "save_retry env_save_rejected ''save'' (Suc (Suc (Suc (Suc (Suc 0))))) 30000 =
      (Inl (RetryError (ConfigSwitchError (Cmd ''save'') ''Error: save failed'')),
       [SaveConfig ''save''])"
    by (subst save_retry.simps) (simp add: att sel)
  have s4: "save_retry env_save_rejected ''save'' (Suc (Suc (Suc (Suc 0)))) 24000 =
      emit [SaveConfig ''save'', Sleep 2000]
        (save_retry env_save_rejected ''save'' (Suc (Suc (Suc (Suc (Suc 0))))) 30000)"
    by (subst save_retry.simps) (simp add: att sel w)
  have s3: "save_retry env_save_rejected ''save'' (Suc (Suc (Suc 0))) 18000 =
      emit [SaveConfig ''save'', Sleep 2000]
        (save_retry env_save_rejected ''save'' (Suc (Suc (Suc (Suc 0)))) 24000)"
    by (subst save_retry.simps) (simp add: att sel w)
  have s2: "save_retry env_save_rejected ''save'' (Suc (Suc 0)) 12000 =
      emit [SaveConfig ''save'', Sleep 2000]
        (save_retry env_save_rejected ''save'' (Suc (Suc (Suc 0))) 18000)"
    by (subst save_retry.simps) (simp add: att sel w)
  have s1: "save_retry env_save_rejected ''save'' (Suc 0) 6000 =
      emit [SaveConfig ''save'', Sleep 2000]
        (save_retry env_save_rejected ''save'' (Suc (Suc 0)) 12000)"
    by (subst save_retry.simps) (simp add: att sel w)
  have s0: "save_retry env_save_rejected ''save'' 0 0 =
      emit [SaveConfig ''save'', Sleep 2000]
        (save_retry env_save_rejected ''save'' (Suc 0) 6000)"
    by (subst save_retry.simps) (simp add: att sel w)
  have sc: "save_configuration env_save_rejected =
     (Inl (RetryError (ConfigSwitchError (Cmd ''save'') ''Error: save failed'')),
      [SaveConfig ''save'', Sleep 2000, SaveConfig ''save'', Sleep 2000,
       SaveConfig ''save'', Sleep 2000, SaveConfig ''save'', Sleep 2000,
       SaveConfig ''save'', Sleep 2000, SaveConfig ''save''])"
    by (simp add: save_configuration_def s0 s1 s2 s3 s4 s5 emit_def)
  have cc: "create_connection env_save_rejected 0 0 = (Inr (), [Connect])"
    by (subst create_connection.simps) (simp add: sel)
  have sv: "save env_save_rejected =
     (Inl (UnboundLocalError ''output''),
      [LockAcquire, Connect,
       SaveConfig ''save'', Sleep 2000, SaveConfig ''save'', Sleep 2000,
       SaveConfig ''save'', Sleep 2000, SaveConfig ''save'', Sleep 2000,
       SaveConfig ''save'', Sleep 2000, SaveConfig ''save'',
       Disconnect, LockRelease])"
    by (simp add: save_def with_pool_lock_def with_connection_def get_connection_def
        cc sc sel)
  have ms: "fst (my_send_command env_save_rejected ''display mac-address'')
       = Inl (RuntimeError ''No active exception to reraise'')"
    by (simp add: my_send_command_def with_pool_lock_def with_connection_def
        get_connection_def cc sc sel send_command_def bind_io_def call_io_def lift_io_def
        return_io_def emit_def unit_result_def check_output_def ERROR_MSG_PATTERNS_def)
  from sc sv ms show ?thesis by blast
qed

text \<open>
  C3. Evaluation of \<open>my_send_command\<close> on a read-only query: after the query it runs
  \<open>save\<close> on the device, and the value it returns is the text of the \<open>save\<close>, not
  the table the query produced. The batch sender \<open>my_send_config_set\<close> on the same
  device runs no \<open>save\<close>.
\<close>

theorem send_command_runs_save:
  "my_send_command env_query ''display mac-address vlan 10'' =
     (Inr (Some ''Info: configuration saved''),
      [LockAcquire, Connect, SessionPreparation,
       SendCommand ''display mac-address vlan 10'', SaveConfig ''save'',
       Disconnect, LockRelease])
   \<and> device_send_command env_query ''display mac-address vlan 10'' = Inr ''MAC table''
   \<and> my_send_config_set env_query [''vlan 10'', ''commit''] =
     (Inr (Some ''successful''),
      [LockAcquire, Connect, ConfigMode, SendConfigSet [''vlan 10'', ''commit''],
       Disconnect, LockRelease])"
proof -
  have sel: "locker env_query" "pool_lock env_query = None"
    "connect_handler env_query = (\<lambda>i. None)"
    "session_preparation env_query = None" "config_mode env_query = None"
    "device_send_command env_query = (\<lambda>c. Inr ''MAC table'')"
    "device_send_config_set env_query = (\<lambda>c. Inr ''ok'')"
    "device_save_config env_query = (\<lambda>i. Inr ''Info: configuration saved'')"
    by (simp_all add: env_query_def env_ok_def)
  have cc: "create_connection env_query 0 0 = (Inr (), [Connect])"
    by (subst create_connection.simps) (simp add: sel)
  have sc: "save_configuration env_query =
      (Inr ''Info: configuration saved'', [SaveConfig ''save''])"
    unfolding save_configuration_def
    by (subst save_retry.simps)
       (simp add: save_attempt_def sel check_output_def ERROR_MSG_PATTERNS_def)
  have 1: "my_send_command env_query ''display mac-address vlan 10'' =
     (Inr (Some ''Info: configuration saved''),
      [LockAcquire, Connect, SessionPreparation,
       SendCommand ''display mac-address vlan 10'', SaveConfig ''save'',
       Disconnect, LockRelease])"
    by (simp add: my_send_command_def with_pool_lock_def with_connection_def
        get_connection_def cc sc sel send_command_def bind_io_def call_io_def lift_io_def
        return_io_def emit_def unit_result_def check_output_def ERROR_MSG_PATTERNS_def)
  have 2: "device_send_command env_query ''display mac-address vlan 10'' = Inr ''MAC table''"
    by (simp add: sel)
  have 3: "my_send_config_set env_query [''vlan 10'', ''commit''] =
     (Inr (Some ''successful''),
      [LockAcquire, Connect, ConfigMode, SendConfigSet [''vlan 10'', ''commit''],
       Disconnect, LockRelease])"
    by (simp add: my_send_config_set_def with_pool_lock_def with_connection_def
        get_connection_def cc sel send_config_set_def bind_io_def call_io_def lift_io_def
        return_io_def emit_def unit_result_def check_output_def ERROR_MSG_PATTERNS_def)
  from 1 2 3 show ?thesis by blast
qed

section \<open>Facts about the table parser\<close>

lemma tokens_nonspace:
  "\<forall>c \<in> set t. \<not> isspace c \<Longrightarrow> tokens cur (t @ rest) = tokens (cur @ t) rest"
  by (induction t arbitrary: cur) auto

lemma tokens_space:
  "\<forall>c \<in> set s. isspace c \<Longrightarrow> tokens [] (s @ rest) = tokens [] rest"
  by (induction s) auto

lemma tokens_end:
  "cur \<noteq> [] \<Longrightarrow> rest = [] \<or> isspace (hd rest) \<Longrightarrow> tokens cur rest = cur # tokens [] rest"
  by (cases rest) auto

lemma findall_token:
  assumes "\<forall>c \<in> set s. isspace c" and "t \<noteq> []" and "\<forall>c \<in> set t. \<not> isspace c"
    and "rest = [] \<or> isspace (hd rest)"
  shows "findall_nonspace (s @ t @ rest) = t # findall_nonspace rest"
proof -
  have "tokens [] (s @ t @ rest) = tokens [] (t @ rest)"
    using assms(1) by (rule tokens_space)
  also have "\<dots> = tokens t rest"
    using tokens_nonspace [OF assms(3), of "[]" rest] by simp
  also have "\<dots> = t # tokens [] rest"
    using assms(2,4) by (rule tokens_end)
  finally show ?thesis by (simp add: findall_nonspace_def)
qed

lemma findall_three:
  assumes s0: "\<forall>c \<in> set s0. isspace c"
    and s1: "s1 \<noteq> []" "\<forall>c \<in> set s1. isspace c"
    and s2: "s2 \<noteq> []" "\<forall>c \<in> set s2. isspace c"
    and t0: "t0 \<noteq> []" "\<forall>c \<in> set t0. \<not> isspace c"
    and t1: "t1 \<noteq> []" "\<forall>c \<in> set t1. \<not> isspace c"
    and t2: "t2 \<noteq> []" "\<forall>c \<in> set t2. \<not> isspace c"
    and rest: "rest = [] \<or> isspace (hd rest)"
  shows "findall_nonspace (s0 @ t0 @ s1 @ t1 @ s2 @ t2 @ rest)
           = t0 # t1 # t2 # findall_nonspace rest"
proof -
  have h1: "s1 @ t1 @ s2 @ t2 @ rest = [] \<or> isspace (hd (s1 @ t1 @ s2 @ t2 @ rest))"
    using s1 by (cases s1) auto
  have h2: "s2 @ t2 @ rest = [] \<or> isspace (hd (s2 @ t2 @ rest))"
    using s2 by (cases s2) auto
  have "findall_nonspace (s0 @ t0 @ s1 @ t1 @ s2 @ t2 @ rest)
          = t0 # findall_nonspace (s1 @ t1 @ s2 @ t2 @ rest)"
    using findall_token [OF s0 t0 h1] .
  also have "findall_nonspace (s1 @ t1 @ s2 @ t2 @ rest)
          = t1 # findall_nonspace (s2 @ t2 @ rest)"
    using findall_token [OF s1(2) t1 h2] .
  also have "findall_nonspace (s2 @ t2 @ rest) = t2 # findall_nonspace rest"
    using findall_token [OF s2(2) t2 rest] .
  finally show ?thesis .
qed

lemma parse_lines_eq:
  "parse_lines lines relations =
     (if \<forall>line \<in> set lines. 3 \<le> length (findall_nonspace line)
      then Inr (relations @
             map (\<lambda>line. \<lparr>mac = mac_of_token (findall_nonspace line ! 0),
                          port = findall_nonspace line ! 2\<rparr>) lines)
      else Inl IndexError)"
  by (induction lines arbitrary: relations) (auto simp: Let_def)

text \<open>
  The separators \<open>0x1C\<close> to \<open>0x1F\<close>, next line and the no-break space end a
  field like the space does.
\<close>

lemma findall_unicode_separators:
  "findall_nonspace (''0011-2233-4455'' @ [CHR 0x1F] @ ''10/-'' @ [CHR 0xA0] @ ''10GE1/0/1''
       @ [CHR 0x85] @ ''dynamic'' @ [CHR 0x1C])
     = [''0011-2233-4455'', ''10/-'', ''10GE1/0/1'', ''dynamic'']"
  by (simp add: findall_nonspace_def isspace_def)

lemma parse_lines_separator_first:
  "parse_lines [[CHR 0x1F] @ '' b c''] [] = Inl IndexError"
  by (simp add: findall_nonspace_def isspace_def)

text \<open>
  C5. A first token made of three blocks of four characters, none of them a hyphen
  (so in particular of four hexadecimal digits each), joined by hyphens, is turned
  into the six pairs joined by colons: \<open>0011-2233-4455\<close> becomes
  \<open>00:11:22:33:44:55\<close>. For a data line whose first three white-space-separated
  fields are \<open>t0\<close>, \<open>t1\<close>, \<open>t2\<close> (after optional leading white space, whatever
  follows the third field), the relation appended for the line has the MAC made
  from \<open>t0\<close> and the port \<open>t2\<close>.
\<close>

theorem relation_of_line:
  "(CHR ''-'' \<notin> set [a1, a2, a3, a4, b1, b2, b3, b4, c1, c2, c3, c4] \<longrightarrow>
      mac_of_token [a1, a2, a3, a4, CHR ''-'', b1, b2, b3, b4, CHR ''-'', c1, c2, c3, c4]
        = [a1, a2, CHR '':'', a3, a4, CHR '':'', b1, b2, CHR '':'', b3, b4, CHR '':'',
           c1, c2, CHR '':'', c3, c4])
   \<and> ((\<forall>c \<in> set s0. isspace c)
       \<and> s1 \<noteq> [] \<and> (\<forall>c \<in> set s1. isspace c)
       \<and> s2 \<noteq> [] \<and> (\<forall>c \<in> set s2. isspace c)
       \<and> t0 \<noteq> [] \<and> (\<forall>c \<in> set t0. \<not> isspace c)
       \<and> t1 \<noteq> [] \<and> (\<forall>c \<in> set t1. \<not> isspace c)
       \<and> t2 \<noteq> [] \<and> (\<forall>c \<in> set t2. \<not> isspace c)
       \<and> (rest = [] \<or> isspace (hd rest))
      \<longrightarrow> parse_lines ((s0 @ t0 @ s1 @ t1 @ s2 @ t2 @ rest) # lines) relations
            = parse_lines lines (relations @ [\<lparr>mac = mac_of_token t0, port = t2\<rparr>]))"
proof -
  have a: "CHR ''-'' \<notin> set [a1, a2, a3, a4, b1, b2, b3, b4, c1, c2, c3, c4] \<longrightarrow>
      mac_of_token [a1, a2, a3, a4, CHR ''-'', b1, b2, b3, b4, CHR ''-'', c1, c2, c3, c4]
        = [a1, a2, CHR '':'', a3, a4, CHR '':'', b1, b2, CHR '':'', b3, b4, CHR '':'',
           c1, c2, CHR '':'', c3, c4]"
    by (auto simp: mac_of_token_def py_split_def)
  have b: "parse_lines ((s0 @ t0 @ s1 @ t1 @ s2 @ t2 @ rest) # lines) relations
            = parse_lines lines (relations @ [\<lparr>mac = mac_of_token t0, port = t2\<rparr>])"
    if h: "(\<forall>c \<in> set s0. isspace c)
       \<and> s1 \<noteq> [] \<and> (\<forall>c \<in> set s1. isspace c)
       \<and> s2 \<noteq> [] \<and> (\<forall>c \<in> set s2. isspace c)
       \<and> t0 \<noteq> [] \<and> (\<forall>c \<in> set t0. \<not> isspace c)
       \<and> t1 \<noteq> [] \<and> (\<forall>c \<in> set t1. \<not> isspace c)
       \<and> t2 \<noteq> [] \<and> (\<forall>c \<in> set t2. \<not> isspace c)
       \<and> (rest = [] \<or> isspace (hd rest))"
  proof -
    from h have "findall_nonspace (s0 @ t0 @ s1 @ t1 @ s2 @ t2 @ rest)
           = t0 # t1 # t2 # findall_nonspace rest"
      by (intro findall_three) blast+
    then show ?thesis by (simp add: Let_def)
  qed
  from a b show ?thesis by blast
qed

theorem relation_of_line_witness:
  "mac_of_token ''0011-2233-4455'' = ''00:11:22:33:44:55''
   \<and> parse_lines [''0011-2233-4455 10/-  10GE1/0/1 dynamic''] []
     = Inr [\<lparr>mac = ''00:11:22:33:44:55'', port = ''10GE1/0/1''\<rparr>]"
proof -
  note t = relation_of_line
    [of "CHR ''0''" "CHR ''0''" "CHR ''1''" "CHR ''1''"
        "CHR ''2''" "CHR ''2''" "CHR ''3''" "CHR ''3''"
        "CHR ''4''" "CHR ''4''" "CHR ''5''" "CHR ''5''"
        "[]" "'' ''" "''  ''" "''0011-2233-4455''" "''10/-''" "''10GE1/0/1''"
        "'' dynamic''" "[]" "[]"]
  have 1: "mac_of_token ''0011-2233-4455'' = ''00:11:22:33:44:55''"
    using t by simp
  have 2: "parse_lines [''0011-2233-4455 10/-  10GE1/0/1 dynamic''] []
     = Inr [\<lparr>mac = mac_of_token ''0011-2233-4455'', port = ''10GE1/0/1''\<rparr>]"
    using t by (simp add: isspace_def)
  from 1 2 show ?thesis by simp
qed

lemma table_lines_split:
  "9 \<le> length (py_split (CHR 0x0A) datas) \<Longrightarrow>
     py_split (CHR 0x0A) datas =
       take 7 (py_split (CHR 0x0A) datas) @ table_lines datas
       @ drop (length (py_split (CHR 0x0A) datas) - 2) (py_split (CHR 0x0A) datas)"
proof -
  assume h: "9 \<le> length (py_split (CHR 0x0A) datas)"
  define ls where "ls = py_split (CHR 0x0A) datas"
  define n where "n = length ls - 2"
  have n7: "7 \<le> n"
    using h unfolding ls_def n_def by arith
  have t: "take 7 (take n ls) = take 7 ls"
    using n7 by (simp add: min_def)
  have "ls = take n ls @ drop n ls"
    by (simp only: append_take_drop_id)
  also have "take n ls = take 7 (take n ls) @ drop 7 (take n ls)"
    by (simp only: append_take_drop_id)
  finally have "ls = (take 7 ls @ drop 7 (take n ls)) @ drop n ls"
    by (simp only: t)
  thus ?thesis
    by (simp add: table_lines_def Let_def ls_def n_def)
qed

text \<open>
  C9, as the code has it. Of the newline-split response only the lines after the
  first seven and before the last two are parsed (none when there are fewer than
  ten). The parse raises \<open>IndexError\<close>, and returns no relation at all, exactly
  when one of these lines has fewer than three white-space-separated fields.
  Otherwise it never raises, whatever the first field looks like: each line gives
  one relation, whose MAC is built from the first field by slicing.
\<close>

theorem parse_output_index_error:
  "(9 \<le> length (py_split (CHR 0x0A) datas) \<longrightarrow>
      py_split (CHR 0x0A) datas =
        take 7 (py_split (CHR 0x0A) datas) @ table_lines datas
        @ drop (length (py_split (CHR 0x0A) datas) - 2) (py_split (CHR 0x0A) datas))
   \<and> (length (py_split (CHR 0x0A) datas) \<le> 9 \<longrightarrow> table_lines datas = [])
   \<and> ((\<exists>line \<in> set (table_lines datas). length (findall_nonspace line) < 3) \<longrightarrow>
        parse_output datas relations = Inl IndexError)
   \<and> ((\<forall>line \<in> set (table_lines datas). 3 \<le> length (findall_nonspace line)) \<longrightarrow>
        parse_output datas relations =
          Inr (relations @
               map (\<lambda>line. \<lparr>mac = mac_of_token (findall_nonspace line ! 0),
                            port = findall_nonspace line ! 2\<rparr>) (table_lines datas)))"
proof -
  have a: "9 \<le> length (py_split (CHR 0x0A) datas) \<longrightarrow>
      py_split (CHR 0x0A) datas =
        take 7 (py_split (CHR 0x0A) datas) @ table_lines datas
        @ drop (length (py_split (CHR 0x0A) datas) - 2) (py_split (CHR 0x0A) datas)"
    using table_lines_split by blast
  have b: "length (py_split (CHR 0x0A) datas) \<le> 9 \<longrightarrow> table_lines datas = []"
    by (simp add: table_lines_def Let_def)
  have c: "(\<exists>line \<in> set (table_lines datas). length (findall_nonspace line) < 3) \<longrightarrow>
        parse_output datas relations = Inl IndexError"
    by (auto simp: parse_output_def parse_lines_eq)
  have d: "(\<forall>line \<in> set (table_lines datas). 3 \<le> length (findall_nonspace line)) \<longrightarrow>
        parse_output datas relations =
          Inr (relations @
               map (\<lambda>line. \<lparr>mac = mac_of_token (findall_nonspace line ! 0),
                            port = findall_nonspace line ! 2\<rparr>) (table_lines datas))"
    by (simp add: parse_output_def parse_lines_eq)
  from a b c d show ?thesis by blast
qed

lemma table_no_hyphen_lines: "table_lines table_no_hyphen = [''abc x y'']"
  by (simp add: table_no_hyphen_def table_lines_def py_split_def Let_def)

lemma table_short_line_lines: "table_lines table_short_line = [''0011-2233-4455 10'']"
  by (simp add: table_short_line_def table_lines_def py_split_def Let_def)

lemma findall_abc: "findall_nonspace ''abc x y'' = [''abc'', ''x'', ''y'']"
  by (simp add: findall_nonspace_def isspace_def)

lemma findall_short: "findall_nonspace ''0011-2233-4455 10'' = [''0011-2233-4455'', ''10'']"
  by (simp add: findall_nonspace_def isspace_def)

theorem parse_output_index_error_witness:
  "parse_output table_short_line [] = Inl IndexError
   \<and> parse_output table_no_hyphen [] = Inr [\<lparr>mac = ''ab:c'', port = ''y''\<rparr>]"
proof -
  have 1: "parse_output table_short_line [] = Inl IndexError"
    using parse_output_index_error [of table_short_line "[]"]
    by (simp add: table_short_line_lines findall_short)
  have 2: "parse_output table_no_hyphen [] = Inr [\<lparr>mac = ''ab:c'', port = ''y''\<rparr>]"
    using parse_output_index_error [of table_no_hyphen "[]"]
    by (simp add: table_no_hyphen_lines findall_abc mac_of_token_def py_split_def)
  from 1 2 show ?thesis by simp
qed

text \<open>
  The claim C9 as stated fails: the response \<open>table_no_hyphen\<close> has a parsed line
  whose first field \<open>abc\<close> contains no hyphen-grouped pairs, and the parse raises
  nothing: it returns a relation with the MAC text \<open>ab:c\<close>.
\<close>

theorem parse_output_no_hyphen_counterexample:
  "''abc x y'' \<in> set (table_lines table_no_hyphen)
   \<and> CHR ''-'' \<notin> set (findall_nonspace ''abc x y'' ! 0)
   \<and> parse_output table_no_hyphen [] \<noteq> Inl IndexError
   \<and> parse_output table_no_hyphen [] = Inr [\<lparr>mac = ''ab:c'', port = ''y''\<rparr>]"
  by (simp add: parse_output_def table_no_hyphen_lines findall_abc Let_def
        mac_of_token_def py_split_def)

end
